theory Spec2Isabelle
  imports Main "HOL-Library.Word"
begin

section \<open>Data model\<close>

text \<open>
  The message scheduler of \<^verbatim>\<open>internal/scheduler/scheduler.go\<close> and the repository of
  \<^verbatim>\<open>internal/repository/message_repo.go\<close>. Everything the code obtains from outside
  (the webhook, the JSON codec, the database driver, the cache, the clock, the context)
  is an explicit environment; everything it does to the outside is an event of a trace
  plus an update of the table and the cache.
\<close>

subsection \<open>Status constants (\<^verbatim>\<open>internal/constants/message_status.go\<close>)\<close>

definition MessageStatusPending :: string where
  "MessageStatusPending = ''pending''"

definition MessageStatusSent :: string where
  "MessageStatusSent = ''sent''"

definition MessageStatusFailed :: string where
  "MessageStatusFailed = ''failed''"

subsection \<open>Messages and the \<^verbatim>\<open>messages\<close> table\<close>

text \<open>\<^verbatim>\<open>model.Message\<close>; \<open>SentAt = 0\<close> is the zero \<^verbatim>\<open>time.Time\<close>.\<close>

record message =
  ID :: int
  PhoneNumber :: string
  Content :: string
  Status :: string
  SentAt :: nat

text \<open>A row of the table of \<^verbatim>\<open>scripts/init.sql\<close>; \<open>sent_at\<close> is nullable.\<close>

record row =
  row_id :: int
  phone_number :: string
  content :: string
  status :: string
  sent_at :: "nat option"

type_synonym table = "row list"

datatype error = DBError | CacheError

text \<open>What the driver answers to a statement: it ran, or it returned an error and
  changed nothing.\<close>

datatype exec_result = ExecOk | ExecErr

text \<open>What the driver answers to the query of \<^verbatim>\<open>FetchUnsent\<close>: every row, an error of
  \<^verbatim>\<open>db.Query\<close>, an error of \<^verbatim>\<open>rows.Scan\<close> at the row of the given index, or an iteration
  that stops on an error after the given number of rows (\<^verbatim>\<open>rows.Next()\<close> returns false
  and \<^verbatim>\<open>rows.Err()\<close> holds the error).\<close>

datatype query_result = RowsOk | QueryErr | ScanErrAt nat | NextErrAt nat

text \<open>\<^verbatim>\<open>UPDATE messages SET status=$1, sent_at=$2 WHERE id=$3\<close>\<close>

definition update_status :: "string \<Rightarrow> nat \<Rightarrow> int \<Rightarrow> table \<Rightarrow> table" where
  "update_status st t i tbl =
     map (\<lambda>r. if row_id r = i then r\<lparr>status := st, sent_at := Some t\<rparr> else r) tbl"

definition MarkAsSent :: "exec_result \<Rightarrow> nat \<Rightarrow> int \<Rightarrow> table \<Rightarrow> error option \<times> table" where
  "MarkAsSent x t i tbl =
     (case x of
        ExecOk \<Rightarrow> (None, update_status MessageStatusSent t i tbl)
      | ExecErr \<Rightarrow> (Some DBError, tbl))"

definition MarkAsFailed :: "exec_result \<Rightarrow> nat \<Rightarrow> int \<Rightarrow> table \<Rightarrow> error option \<times> table" where
  "MarkAsFailed x t i tbl =
     (case x of
        ExecOk \<Rightarrow> (None, update_status MessageStatusFailed t i tbl)
      | ExecErr \<Rightarrow> (Some DBError, tbl))"

text \<open>\<^verbatim>\<open>SELECT id, phone_number, content, status FROM messages WHERE status = $1 LIMIT $2\<close>:
  \<open>sent_at\<close> is not scanned, so \<open>SentAt\<close> keeps its zero value. The rows come in table
  order.\<close>

definition scan_row :: "row \<Rightarrow> message" where
  "scan_row r =
     \<lparr>ID = row_id r, PhoneNumber = phone_number r, Content = content r,
      Status = status r, SentAt = 0\<rparr>"

text \<open>The loop \<^verbatim>\<open>for rows.Next() { ... }\<close> from the row of index \<open>k\<close> on. The source
  returns the messages read so far when \<^verbatim>\<open>rows.Next()\<close> returns false, and never reads
  \<^verbatim>\<open>rows.Err()\<close>.\<close>

fun scan_rows :: "query_result \<Rightarrow> nat \<Rightarrow> row list \<Rightarrow> message list \<Rightarrow> error + message list" where
  "scan_rows q k [] msgs = Inr msgs"
| "scan_rows q k (r # rs) msgs =
     (if q = NextErrAt k then Inr msgs
      else if q = ScanErrAt k then Inl DBError
      else scan_rows q (k + 1) rs (msgs @ [scan_row r]))"

definition FetchUnsent :: "query_result \<Rightarrow> nat \<Rightarrow> table \<Rightarrow> error + message list" where
  "FetchUnsent q limit tbl =
     (case q of
        QueryErr \<Rightarrow> Inl DBError
      | _ \<Rightarrow>
          scan_rows q 0 (take limit (filter (\<lambda>r. status r = MessageStatusPending) tbl)) [])"

text \<open>The status the table holds for an identifier (\<open>id\<close> is the primary key).\<close>

definition status_of :: "table \<Rightarrow> int \<Rightarrow> string option" where
  "status_of tbl i = map_option status (find (\<lambda>r. row_id r = i) tbl)"

section \<open>The delivery unit\<close>

subsection \<open>Environment and trace\<close>

text \<open>The result of \<^verbatim>\<open>json.NewDecoder(resp.Body).Decode(&respData)\<close>: an error, or the
  \<^verbatim>\<open>messageId\<close> field (empty when the body has none).\<close>

datatype decode_result = DecodeError | Decoded string

text \<open>The result of \<^verbatim>\<open>s.client.Do(req)\<close>: an error, or a response with its status code
  and what its body decodes to.\<close>

datatype do_result = TransportError | Response int decode_result

text \<open>The branch taken by the \<^verbatim>\<open>select\<close> of the backoff wait.\<close>

datatype select_result = CtxDone | TimerFired

text \<open>What one delivery unit meets. \<open>marshal to content\<close> is the result of
  \<^verbatim>\<open>json.Marshal\<close> (\<open>None\<close> for an error); \<open>new_request a\<close> tells whether
  \<^verbatim>\<open>http.NewRequestWithContext\<close> succeeds at attempt \<open>a\<close>; \<open>client_do a\<close> is the result
  of the HTTP call of attempt \<open>a\<close>; \<open>backoff_select a\<close> is the branch of the
  \<^verbatim>\<open>select\<close> after attempt \<open>a\<close>; the three \<open>exec_result\<close>s are the answers to the two
  \<^verbatim>\<open>UPDATE\<close>s and to the cache write; \<open>clock\<close> and \<open>repo_clock\<close> are \<^verbatim>\<open>time.Now()\<close> as
  read in the scheduler and in the repository; \<open>rfc3339\<close> formats a time.\<close>

record unit_env =
  marshal :: "string \<Rightarrow> string \<Rightarrow> string option"
  new_request :: "nat \<Rightarrow> bool"
  client_do :: "nat \<Rightarrow> do_result"
  backoff_select :: "nat \<Rightarrow> select_result"
  mark_sent_exec :: exec_result
  mark_failed_exec :: exec_result
  cache_set :: exec_result
  clock :: nat
  repo_clock :: nat
  rfc3339 :: "nat \<Rightarrow> string"

text \<open>The lines the code logs, one constructor per \<^verbatim>\<open>log.Printf\<close> of the scheduler.\<close>

datatype log_line =
    ContentTooLong int nat
  | MarshalFailed int
  | FailedAfterAttempts int nat
  | MarkFailedError int
  | RetryingIn int nat "64 word"
  | RetryCancelled int
  | CreateRequestFailed int nat
  | SendError int nat
  | SentSuccessfully int nat
  | ParseFailed int nat
  | MarkSentError int
  | CacheSetError string
  | Cached string string
  | SendRejected int nat int
  | FetchError
  | Fetched nat
  | SchedulerStarted
  | SchedulerStopped
  | ContextCancelled

datatype event =
    Log log_line
  | HttpDo nat string do_result
  | ExecUpdate string int
  | CacheSet string string
  | After "64 word"
  | Drain
  | CloseBody

record world =
  db :: table
  redis :: "string \<Rightarrow> string option"

subsection \<open>Constants of \<^verbatim>\<open>scheduler.go\<close>\<close>

definition maxMessageLength :: nat where
  "maxMessageLength = 160"

definition redisKeyPrefix :: string where
  "redisKeyPrefix = ''insider:msg:sent''"

definition maxRetries :: nat where
  "maxRetries = 3"

text \<open>\<^verbatim>\<open>1 * time.Second\<close>: a \<^verbatim>\<open>time.Duration\<close> is an \<^verbatim>\<open>int64\<close> of nanoseconds.\<close>

definition baseDelay :: "64 word" where
  "baseDelay = 1000000000"

subsection \<open>The cache\<close>

text \<open>\<^verbatim>\<open>RedisClient.Set\<close> of package \<^verbatim>\<open>cache\<close>:
  \<^verbatim>\<open>return r.Client.Set(ctx, key, value, ttl).Err()\<close>. The answer of the Redis client to
  the command is the first argument: the command ran and the key holds the value, or it
  returned an error and changed nothing. The scheduler passes \<open>ttl = 0\<close>, no expiry;
  expiry is not part of the model.\<close>

definition cache_Set ::
  "exec_result \<Rightarrow> string \<Rightarrow> string \<Rightarrow> 64 word \<Rightarrow> (string \<Rightarrow> string option) \<Rightarrow>
     error option \<times> (string \<Rightarrow> string option)" where
  "cache_Set x key val ttl c =
     (case x of ExecOk \<Rightarrow> (None, c(key \<mapsto> val)) | ExecErr \<Rightarrow> (Some CacheError, c))"

subsection \<open>\<^verbatim>\<open>sendMessageWithRetry\<close>: one attempt\<close>

definition sendMessageWithRetry ::
  "unit_env \<Rightarrow> message \<Rightarrow> string \<Rightarrow> nat \<Rightarrow> world \<Rightarrow> bool \<times> event list \<times> world" where
  "sendMessageWithRetry env m body attempt w =
     (if \<not> new_request env attempt then
        (False, [Log (CreateRequestFailed (ID m) (attempt + 1))], w)
      else
        (case client_do env attempt of
           TransportError \<Rightarrow>
             (False, [HttpDo attempt body TransportError,
                      Log (SendError (ID m) (attempt + 1))], w)
         | Response code d \<Rightarrow>
             if code = 200 \<or> code = 201 \<or> code = 202 then
               (case d of
                  DecodeError \<Rightarrow>
                    (False, [HttpDo attempt body (Response code d),
                             Log (SentSuccessfully (ID m) (attempt + 1)),
                             Log (ParseFailed (ID m) (attempt + 1)),
                             CloseBody], w)
                | Decoded messageId \<Rightarrow>
                    (let sentAt = clock env;
                         (err, tbl) = MarkAsSent (mark_sent_exec env) (repo_clock env) (ID m) (db w);
                         ev1 = [HttpDo attempt body (Response code d),
                                Log (SentSuccessfully (ID m) (attempt + 1)),
                                ExecUpdate MessageStatusSent (ID m)]
                               @ (if err \<noteq> None then [Log (MarkSentError (ID m))] else []);
                         w1 = w\<lparr>db := tbl\<rparr>
                     in if messageId \<noteq> [] then
                          (let cacheKey = redisKeyPrefix @ '':'' @ messageId;
                               cacheVal = rfc3339 env sentAt;
                               (cerr, c) = cache_Set (cache_set env) cacheKey cacheVal 0 (redis w1)
                           in (True,
                               ev1 @ [CacheSet cacheKey cacheVal,
                                      if cerr \<noteq> None then Log (CacheSetError messageId)
                                      else Log (Cached messageId cacheVal),
                                      CloseBody],
                               w1\<lparr>redis := c\<rparr>))
                        else (True, ev1 @ [CloseBody], w1)))
             else
               (False, [HttpDo attempt body (Response code d),
                        Log (SendRejected (ID m) (attempt + 1) code),
                        Drain, CloseBody], w)))"

subsection \<open>\<^verbatim>\<open>sendMessage\<close>: validation, serialisation and the attempt loop\<close>

text \<open>The body of \<^verbatim>\<open>for attempt := 0; attempt < maxRetries; attempt++\<close>.\<close>

function attempt_loop ::
  "unit_env \<Rightarrow> message \<Rightarrow> string \<Rightarrow> nat \<Rightarrow> world \<Rightarrow> event list \<times> world" where
  "attempt_loop env m body attempt w =
     (if attempt < maxRetries then
        (let (success, ev, w1) = sendMessageWithRetry env m body attempt w in
         if success then (ev, w1)
         else if attempt = maxRetries - 1 then
           (let (err, tbl) = MarkAsFailed (mark_failed_exec env) (repo_clock env) (ID m) (db w1)
            in (ev @ [Log (FailedAfterAttempts (ID m) maxRetries),
                      ExecUpdate MessageStatusFailed (ID m)]
                   @ (if err \<noteq> None then [Log (MarkFailedError (ID m))] else []),
                w1\<lparr>db := tbl\<rparr>))
         else
           (let delay = baseDelay * push_bit attempt 1;
                ev1 = ev @ [Log (RetryingIn (ID m) (attempt + 1) delay), After delay]
            in case backoff_select env attempt of
                 CtxDone \<Rightarrow> (ev1 @ [Log (RetryCancelled (ID m))], w1)
               | TimerFired \<Rightarrow>
                   (let (ev2, w2) = attempt_loop env m body (attempt + 1) w1
                    in (ev1 @ ev2, w2))))
      else ([], w))"
  by pat_completeness auto
termination
  by (relation "measure (\<lambda>(env, m, body, attempt, w). maxRetries - attempt)") auto

declare attempt_loop.simps [simp del]

definition sendMessage :: "unit_env \<Rightarrow> message \<Rightarrow> world \<Rightarrow> event list \<times> world" where
  "sendMessage env m w =
     (if length (Content m) > maxMessageLength then
        ([Log (ContentTooLong (ID m) (length (Content m)))], w)
      else
        (case marshal env (PhoneNumber m) (Content m) of
           None \<Rightarrow> ([Log (MarshalFailed (ID m))], w)
         | Some body \<Rightarrow> attempt_loop env m body 0 w))"

subsection \<open>The shared context\<close>

text \<open>The steps of a unit, in order: step \<open>2 * a\<close> is the HTTP call of attempt \<open>a\<close>, step
  \<open>2 * a + 1\<close> the backoff wait after it. The context the unit shares with the loop is
  cancelled during one of these steps (or before the first) or, \<open>None\<close>, not while the
  unit runs; \<open>ctx_done c k\<close> tells whether it is cancelled by the end of step \<open>k\<close>. The
  request carries the context, so a call on a cancelled context, or cut by the
  cancellation, returns an error; a wait during which the context is cancelled takes the
  \<^verbatim>\<open>ctx.Done()\<close> branch, and otherwise the timer fires.\<close>

definition ctx_done :: "nat option \<Rightarrow> nat \<Rightarrow> bool" where
  "ctx_done c k = (case c of None \<Rightarrow> False | Some j \<Rightarrow> j \<le> k)"

definition under_ctx :: "nat option \<Rightarrow> unit_env \<Rightarrow> unit_env" where
  "under_ctx c env =
     env\<lparr>client_do := (\<lambda>a. if ctx_done c (2 * a) then TransportError else client_do env a),
         backoff_select := (\<lambda>a. if ctx_done c (2 * a + 1) then CtxDone else TimerFired)\<rparr>"

section \<open>The scheduler loop\<close>

subsection \<open>\<^verbatim>\<open>process\<close>: one pass\<close>

text \<open>What a pass meets: the answer of the driver to the fetch, and the environment of
  the delivery unit of each fetched message.\<close>

record pass_env =
  fetch_query :: query_result
  unit_envs :: "message \<Rightarrow> unit_env"

text \<open>The source starts one goroutine per fetched message and joins them with a
  \<^verbatim>\<open>sync.WaitGroup\<close>. Here the units of a pass run one after the other, in fetch order:
  the interleaving of their events is not part of the model.\<close>

fun run_units :: "(message \<Rightarrow> unit_env) \<Rightarrow> message list \<Rightarrow> world \<Rightarrow> event list \<times> world" where
  "run_units envs [] w = ([], w)"
| "run_units envs (m # ms) w =
     (let (ev, w1) = sendMessage (envs m) m w;
          (ev', w2) = run_units envs ms w1
      in (ev @ ev', w2))"

definition process :: "pass_env \<Rightarrow> world \<Rightarrow> event list \<times> world" where
  "process pe w =
     (case FetchUnsent (fetch_query pe) 2 (db w) of
        Inl err \<Rightarrow> ([Log FetchError], w)
      | Inr msgs \<Rightarrow>
          (let (ev, w1) = run_units (unit_envs pe) msgs w
           in (Log (Fetched (length msgs)) # ev, w1)))"

subsection \<open>\<^verbatim>\<open>run\<close>: the polling loop\<close>

text \<open>The case of the \<^verbatim>\<open>select\<close> that fires in one iteration of the loop: the ticker
  (with the environment of the pass it starts) or the cancelled context.\<close>

datatype select_case = TickerC pass_env | CtxDoneC

text \<open>Where the goroutine of \<^verbatim>\<open>run\<close> is once the cases given have fired: blocked in the
  \<^verbatim>\<open>select\<close> again, returned, or panicked.\<close>

datatype loop_state = Selecting | Returned | Panicked

fun ticker_loop :: "select_case list \<Rightarrow> world \<Rightarrow> loop_state \<times> event list \<times> world" where
  "ticker_loop [] w = (Selecting, [], w)"
| "ticker_loop (TickerC pe # cs) w =
     (let (ev, w1) = process pe w;
          (st, ev', w2) = ticker_loop cs w1
      in (st, ev @ ev', w2))"
| "ticker_loop (CtxDoneC # cs) w = (Returned, [Log ContextCancelled], w)"

text \<open>\<^verbatim>\<open>run\<close> makes its first pass, then creates the ticker:
  \<^verbatim>\<open>time.NewTicker(s.cfg.SendInterval)\<close> panics when the interval, a \<^verbatim>\<open>time.Duration\<close> that
  \<^verbatim>\<open>config.Load\<close> parses and does not validate, is not positive.\<close>

definition run ::
  "64 word \<Rightarrow> pass_env \<Rightarrow> select_case list \<Rightarrow> world \<Rightarrow> loop_state \<times> event list \<times> world" where
  "run SendInterval pe0 cs w =
     (let (ev, w1) = process pe0 w in
      if sint SendInterval \<le> 0 then (Panicked, ev, w1)
      else
        (let (st, ev', w2) = ticker_loop cs w1
         in (st, ev @ ev', w2)))"

subsection \<open>\<^verbatim>\<open>Start\<close> and \<^verbatim>\<open>Stop\<close>\<close>

text \<open>The fields of \<^verbatim>\<open>Scheduler\<close> that \<^verbatim>\<open>Start\<close> and \<^verbatim>\<open>Stop\<close> touch, under the mutex.
  \<open>ctx\<close> is the handle of \<^verbatim>\<open>s.ctx\<close> and \<^verbatim>\<open>s.cancel\<close> (\<open>None\<close> is \<^verbatim>\<open>nil\<close>), \<open>created\<close>
  counts the contexts made so far, \<open>cancels\<close> lists the handles cancelled, \<open>launched\<close>
  lists the goroutines started by \<^verbatim>\<open>go s.run()\<close>, each under the handle current at its
  launch.\<close>

record scheduler =
  isRunning :: bool
  ctx :: "nat option"
  created :: nat
  cancels :: "nat list"
  launched :: "nat list"
  printed :: "log_line list"

definition NewScheduler :: scheduler where
  "NewScheduler =
     \<lparr>isRunning = False, ctx = None, created = 0, cancels = [], launched = [], printed = []\<rparr>"

definition Start :: "scheduler \<Rightarrow> error option \<times> scheduler" where
  "Start s =
     (if isRunning s then (None, s)
      else
        (None, s\<lparr>ctx := Some (created s), created := created s + 1, isRunning := True,
                 printed := printed s @ [SchedulerStarted],
                 launched := launched s @ [created s]\<rparr>))"

text \<open>Calling a \<^verbatim>\<open>nil\<close> cancel function panics.\<close>

datatype 'a outcome = Return 'a | Panic

definition Stop :: "scheduler \<Rightarrow> (error option \<times> scheduler) outcome" where
  "Stop s =
     (if \<not> isRunning s then Return (None, s)
      else
        (case ctx s of
           None \<Rightarrow> Panic
         | Some c \<Rightarrow>
             Return (None, s\<lparr>cancels := cancels s @ [c], isRunning := False,
                             printed := printed s @ [SchedulerStopped]\<rparr>)))"

definition IsRunning :: "scheduler \<Rightarrow> bool" where
  "IsRunning s = isRunning s"

text \<open>A sequence of calls from the control surface, with the errors they return.\<close>

datatype call = StartCall | StopCall

fun calls :: "call list \<Rightarrow> scheduler \<Rightarrow> (error option list \<times> scheduler) outcome" where
  "calls [] s = Return ([], s)"
| "calls (StartCall # cs) s =
     (case Start s of (e, s1) \<Rightarrow>
        (case calls cs s1 of Return (es, s2) \<Rightarrow> Return (e # es, s2) | Panic \<Rightarrow> Panic))"
| "calls (StopCall # cs) s =
     (case Stop s of
        Panic \<Rightarrow> Panic
      | Return (e, s1) \<Rightarrow>
          (case calls cs s1 of Return (es, s2) \<Rightarrow> Return (e # es, s2) | Panic \<Rightarrow> Panic))"

text \<open>A running scheduler holds a context: what \<^verbatim>\<open>Start\<close> establishes and \<^verbatim>\<open>Stop\<close>
  relies on.\<close>

definition has_context :: "scheduler \<Rightarrow> bool" where
  "has_context s = (isRunning s \<longrightarrow> ctx s \<noteq> None)"

section \<open>Reading a trace\<close>

text \<open>The status writes issued, the backoff delays started, the HTTP calls made and the
  cache writes issued, each in order.\<close>

fun db_writes :: "event list \<Rightarrow> (string \<times> int) list" where
  "db_writes [] = []"
| "db_writes (ExecUpdate st i # es) = (st, i) # db_writes es"
| "db_writes (e # es) = db_writes es"

fun delays :: "event list \<Rightarrow> 64 word list" where
  "delays [] = []"
| "delays (After d # es) = d # delays es"
| "delays (e # es) = delays es"

fun http_calls :: "event list \<Rightarrow> (nat \<times> do_result) list" where
  "http_calls [] = []"
| "http_calls (HttpDo a b r # es) = (a, r) # http_calls es"
| "http_calls (e # es) = http_calls es"

fun cache_writes :: "event list \<Rightarrow> (string \<times> string) list" where
  "cache_writes [] = []"
| "cache_writes (CacheSet k v # es) = (k, v) # cache_writes es"
| "cache_writes (e # es) = cache_writes es"

text \<open>An attempt that returns \<open>false\<close> logs exactly one of these four lines.\<close>

definition is_attempt_failure :: "event \<Rightarrow> bool" where
  "is_attempt_failure e =
     (case e of
        Log (CreateRequestFailed i a) \<Rightarrow> True
      | Log (SendError i a) \<Rightarrow> True
      | Log (ParseFailed i a) \<Rightarrow> True
      | Log (SendRejected i a c) \<Rightarrow> True
      | _ \<Rightarrow> False)"

definition failed_attempts :: "event list \<Rightarrow> nat" where
  "failed_attempts es = length (filter is_attempt_failure es)"

text \<open>The backoff wait saw the context cancelled.\<close>

definition cancelled :: "event list \<Rightarrow> bool" where
  "cancelled es = (\<exists>e \<in> set es. case e of Log (RetryCancelled i) \<Rightarrow> True | _ \<Rightarrow> False)"

text \<open>The kinds of answer of the webhook: an accepted status code (200, 201 or 202) with
  a body that decodes; an accepted status code with a body that does not; a rejected
  status code.\<close>

definition accepted_parsed :: "do_result \<Rightarrow> bool" where
  "accepted_parsed r =
     (case r of Response c (Decoded mid) \<Rightarrow> c = 200 \<or> c = 201 \<or> c = 202 | _ \<Rightarrow> False)"

definition rejected :: "do_result \<Rightarrow> bool" where
  "rejected r =
     (case r of Response c d \<Rightarrow> c \<noteq> 200 \<and> c \<noteq> 201 \<and> c \<noteq> 202 | TransportError \<Rightarrow> False)"

text \<open>Attempt \<open>a\<close> builds its request and gets an accepted, decodable answer.\<close>

definition attempt_ok :: "unit_env \<Rightarrow> nat \<Rightarrow> bool" where
  "attempt_ok env a = (new_request env a \<and> accepted_parsed (client_do env a))"

text \<open>The cache entry a successful attempt writes: none when the answer carries no
  \<^verbatim>\<open>messageId\<close>.\<close>

definition cache_entry :: "unit_env \<Rightarrow> nat \<Rightarrow> (string \<times> string) list" where
  "cache_entry env a =
     (case client_do env a of
        Response c (Decoded mid) \<Rightarrow>
          if mid \<noteq> [] then [(redisKeyPrefix @ '':'' @ mid, rfc3339 env (clock env))] else []
      | _ \<Rightarrow> [])"

text \<open>What the loop does once the last attempt has failed.\<close>

definition failed_exit :: "unit_env \<Rightarrow> message \<Rightarrow> world \<Rightarrow> event list \<times> world" where
  "failed_exit env m w =
     ([Log (FailedAfterAttempts (ID m) 3), ExecUpdate MessageStatusFailed (ID m)]
        @ (if mark_failed_exec env = ExecErr then [Log (MarkFailedError (ID m))] else []),
      w\<lparr>db := (if mark_failed_exec env = ExecOk
                 then update_status MessageStatusFailed (repo_clock env) (ID m) (db w)
                 else db w)\<rparr>)"

section \<open>Concrete inputs\<close>

definition msg1 :: message where
  "msg1 = \<lparr>ID = 1, PhoneNumber = ''+84901234567'', Content = ''Hello from Insider!'',
           Status = ''pending'', SentAt = 0\<rparr>"

definition msg_long :: message where
  "msg_long = \<lparr>ID = 1, PhoneNumber = ''+84901234567'', Content = replicate 161 (CHR ''a''),
               Status = ''pending'', SentAt = 0\<rparr>"

definition world1 :: world where
  "world1 =
     \<lparr>db = [\<lparr>row_id = 1, phone_number = ''+84901234567'', content = ''Hello from Insider!'',
             status = ''pending'', sent_at = None\<rparr>],
      redis = (\<lambda>k. None)\<rparr>"

text \<open>An endpoint that answers 200 with \<^verbatim>\<open>messageId\<close> \<open>abc\<close>, a store and a cache that
  work, and timers that fire before any cancellation.\<close>

definition env_ok :: unit_env where
  "env_ok =
     \<lparr>marshal = (\<lambda>to c. Some (to @ '':'' @ c)),
      new_request = (\<lambda>a. True),
      client_do = (\<lambda>a. Response 200 (Decoded ''abc'')),
      backoff_select = (\<lambda>a. TimerFired),
      mark_sent_exec = ExecOk,
      mark_failed_exec = ExecOk,
      cache_set = ExecOk,
      clock = 1000,
      repo_clock = 1001,
      rfc3339 = (\<lambda>t. ''2025-01-01T00:00:00Z'')\<rparr>"

text \<open>The endpoint answers 500 to every attempt.\<close>

definition env_rejecting :: unit_env where
  "env_rejecting = env_ok\<lparr>client_do := (\<lambda>a. Response 500 DecodeError)\<rparr>"

text \<open>The endpoint answers 200 with a body that does not decode, to every attempt.\<close>

definition env_unparseable :: unit_env where
  "env_unparseable = env_ok\<lparr>client_do := (\<lambda>a. Response 200 DecodeError)\<rparr>"

text \<open>The endpoint accepts, and the \<^verbatim>\<open>UPDATE\<close> that marks the message sent fails.\<close>

definition env_store_down :: unit_env where
  "env_store_down = env_ok\<lparr>mark_sent_exec := ExecErr\<rparr>"

text \<open>The first attempt fails in transport, and the context is cancelled during the
  first backoff wait.\<close>

definition env_cancel :: unit_env where
  "env_cancel = env_ok\<lparr>client_do := (\<lambda>a. TransportError), backoff_select := (\<lambda>a. CtxDone)\<rparr>"

text \<open>The endpoint answers 500 to every attempt, and the \<^verbatim>\<open>UPDATE\<close> that marks the
  message failed fails.\<close>

definition env_rejecting_store_down :: unit_env where
  "env_rejecting_store_down = env_rejecting\<lparr>mark_failed_exec := ExecErr\<rparr>"

text \<open>\<^verbatim>\<open>json.Marshal\<close> returns an error.\<close>

definition env_marshal_fails :: unit_env where
  "env_marshal_fails = env_ok\<lparr>marshal := (\<lambda>to c. None)\<rparr>"

text \<open>A table with two pending messages.\<close>

definition world2 :: world where
  "world2 =
     \<lparr>db = [\<lparr>row_id = 1, phone_number = ''+84901234567'', content = ''Hello from Insider!'',
             status = ''pending'', sent_at = None\<rparr>,
            \<lparr>row_id = 2, phone_number = ''+84976543210'', content = ''Your code is 1234'',
             status = ''pending'', sent_at = None\<rparr>],
      redis = (\<lambda>k. None)\<rparr>"

text \<open>A pass whose fetch fails, a pass whose fetch works, and a pass during whose fetch
  the iteration over the rows stops on an error after the first row.\<close>

definition pass_iteration_fails :: pass_env where
  "pass_iteration_fails = \<lparr>fetch_query = NextErrAt 1, unit_envs = (\<lambda>m. env_ok)\<rparr>"

definition pass_fetch_fails :: pass_env where
  "pass_fetch_fails = \<lparr>fetch_query = QueryErr, unit_envs = (\<lambda>m. env_ok)\<rparr>"

definition pass_ok :: pass_env where
  "pass_ok = \<lparr>fetch_query = RowsOk, unit_envs = (\<lambda>m. env_ok)\<rparr>"

section \<open>Lemmas\<close>

subsection \<open>Reading a trace\<close>

lemma db_writes_append [simp]: "db_writes (xs @ ys) = db_writes xs @ db_writes ys"
  by (induction xs rule: db_writes.induct) simp_all

lemma delays_append [simp]: "delays (xs @ ys) = delays xs @ delays ys"
  by (induction xs rule: delays.induct) simp_all

lemma http_calls_append [simp]: "http_calls (xs @ ys) = http_calls xs @ http_calls ys"
  by (induction xs rule: http_calls.induct) simp_all

lemma cache_writes_append [simp]: "cache_writes (xs @ ys) = cache_writes xs @ cache_writes ys"
  by (induction xs rule: cache_writes.induct) simp_all

lemma failed_attempts_append [simp]:
  "failed_attempts (xs @ ys) = failed_attempts xs + failed_attempts ys"
  by (simp add: failed_attempts_def)

lemma failed_attempts_Nil [simp]: "failed_attempts [] = 0"
  by (simp add: failed_attempts_def)

lemma failed_attempts_Cons [simp]:
  "failed_attempts (e # es) = (if is_attempt_failure e then 1 else 0) + failed_attempts es"
  by (simp add: failed_attempts_def)

lemma cancelled_append [simp]: "cancelled (xs @ ys) = (cancelled xs \<or> cancelled ys)"
  by (auto simp: cancelled_def)

lemma cancelled_Nil [simp]: "cancelled [] = False"
  by (simp add: cancelled_def)

lemma cancelled_Cons [simp]:
  "cancelled (e # es) =
     ((case e of Log (RetryCancelled i) \<Rightarrow> True | _ \<Rightarrow> False) \<or> cancelled es)"
  by (simp add: cancelled_def)

subsection \<open>The table\<close>

lemma status_of_update_status:
  "status_of (update_status st t i tbl) j =
     (if j = i then map_option (\<lambda>s. st) (status_of tbl j) else status_of tbl j)"
  by (induction tbl) (auto simp: status_of_def update_status_def)

subsection \<open>One attempt\<close>

lemmas smr_unfold =
  sendMessageWithRetry_def attempt_ok_def accepted_parsed_def Let_def split_beta

lemma smr_fst: "fst (sendMessageWithRetry env m body a w) = attempt_ok env a"
  by (simp add: smr_unfold split: do_result.splits decode_result.splits)

lemma smr_fail_world:
  "\<not> attempt_ok env a \<Longrightarrow> snd (snd (sendMessageWithRetry env m body a w)) = w"
  by (auto simp add: smr_unfold split: do_result.splits decode_result.splits)

lemma smr_db_writes:
  "db_writes (fst (snd (sendMessageWithRetry env m body a w))) =
     (if attempt_ok env a then [(MessageStatusSent, ID m)] else [])"
  by (auto simp add: smr_unfold split: do_result.splits decode_result.splits)

lemma smr_delays: "delays (fst (snd (sendMessageWithRetry env m body a w))) = []"
  by (auto simp add: smr_unfold split: do_result.splits decode_result.splits)

lemma smr_http_calls:
  "http_calls (fst (snd (sendMessageWithRetry env m body a w))) =
     (if new_request env a then [(a, client_do env a)] else [])"
  by (auto simp add: smr_unfold split: do_result.splits decode_result.splits)

lemma smr_cache_writes:
  "cache_writes (fst (snd (sendMessageWithRetry env m body a w))) =
     (if attempt_ok env a then cache_entry env a else [])"
  by (auto simp add: smr_unfold cache_entry_def split: do_result.splits decode_result.splits)

lemma smr_failed_attempts:
  "failed_attempts (fst (snd (sendMessageWithRetry env m body a w))) =
     (if attempt_ok env a then 0 else 1)"
  by (auto simp add: smr_unfold is_attempt_failure_def
      split: do_result.splits decode_result.splits)

lemma smr_cancelled: "\<not> cancelled (fst (snd (sendMessageWithRetry env m body a w)))"
  by (auto simp add: smr_unfold split: do_result.splits decode_result.splits)

lemma smr_db:
  "db (snd (snd (sendMessageWithRetry env m body a w))) =
     (if attempt_ok env a \<and> mark_sent_exec env = ExecOk
      then update_status MessageStatusSent (repo_clock env) (ID m) (db w) else db w)"
  by (auto simp add: smr_unfold MarkAsSent_def
      split: do_result.splits decode_result.splits exec_result.splits)

lemmas smr_proj =
  smr_db_writes smr_delays smr_http_calls smr_cache_writes smr_failed_attempts smr_cancelled
  smr_db smr_fail_world

subsection \<open>The attempt loop, unrolled\<close>

lemma loop2:
  "attempt_loop env m body 2 w =
     (let r = sendMessageWithRetry env m body 2 w in
      if attempt_ok env 2 then snd r
      else (fst (snd r) @ fst (failed_exit env m w), snd (failed_exit env m w)))"
  using smr_fst[of env m body 2 w] smr_fail_world[of env 2 m body w]
  by (simp add: attempt_loop.simps[of _ _ _ 2] maxRetries_def split_beta Let_def
       failed_exit_def MarkAsFailed_def split: exec_result.splits)

lemma loop1:
  "attempt_loop env m body (Suc 0) w =
     (let r = sendMessageWithRetry env m body 1 w;
          ev1 = fst (snd r) @ [Log (RetryingIn (ID m) 2 2000000000), After 2000000000] in
      if attempt_ok env 1 then snd r
      else case backoff_select env 1 of
             CtxDone \<Rightarrow> (ev1 @ [Log (RetryCancelled (ID m))], w)
           | TimerFired \<Rightarrow>
               (ev1 @ fst (attempt_loop env m body 2 w), snd (attempt_loop env m body 2 w)))"
  using smr_fst[of env m body 1 w] smr_fail_world[of env 1 m body w]
  by (simp add: attempt_loop.simps[of _ _ _ "Suc 0"] maxRetries_def split_beta Let_def
       baseDelay_def numeral_2_eq_2 split: select_result.splits)

lemma loop0:
  "attempt_loop env m body 0 w =
     (let r = sendMessageWithRetry env m body 0 w;
          ev1 = fst (snd r) @ [Log (RetryingIn (ID m) 1 1000000000), After 1000000000] in
      if attempt_ok env 0 then snd r
      else case backoff_select env 0 of
             CtxDone \<Rightarrow> (ev1 @ [Log (RetryCancelled (ID m))], w)
           | TimerFired \<Rightarrow>
               (ev1 @ fst (attempt_loop env m body 1 w), snd (attempt_loop env m body 1 w)))"
  using smr_fst[of env m body 0 w] smr_fail_world[of env 0 m body w]
  by (simp add: attempt_loop.simps[of _ _ _ 0] maxRetries_def split_beta Let_def
       baseDelay_def split: select_result.splits)

lemmas unit_unfold = sendMessage_def loop0 loop1 loop2 Let_def failed_exit_def

lemmas env_defs =
  env_ok_def env_rejecting_def env_unparseable_def env_store_down_def env_cancel_def
  env_rejecting_store_down_def env_marshal_fails_def msg1_def msg_long_def world1_def
  world2_def

lemmas concrete_unfold =
  unit_unfold env_defs sendMessageWithRetry_def attempt_ok_def accepted_parsed_def rejected_def
  maxMessageLength_def MarkAsSent_def MarkAsFailed_def cache_Set_def update_status_def
  status_of_def is_attempt_failure_def MessageStatusSent_def MessageStatusFailed_def
  MessageStatusPending_def redisKeyPrefix_def baseDelay_def

lemma unit_delays_prefix:
  "delays (fst (sendMessage env m w)) =
     take (length (delays (fst (sendMessage env m w)))) [1000000000, 2000000000]"
  by (simp add: unit_unfold smr_proj split: option.splits select_result.splits)

subsection \<open>The unit as a whole\<close>






text \<open>The backoff wait that sees the context cancelled.\<close>

lemma cancelled_by_env:
  "cancelled (fst (sendMessage env m w)) \<longleftrightarrow>
     length (Content m) \<le> 160 \<and> marshal env (PhoneNumber m) (Content m) \<noteq> None \<and>
     \<not> attempt_ok env 0 \<and>
     (backoff_select env 0 = CtxDone \<or>
      backoff_select env 0 = TimerFired \<and> \<not> attempt_ok env 1 \<and> backoff_select env 1 = CtxDone)"
  by (auto simp add: unit_unfold smr_proj maxMessageLength_def
      split: option.splits select_result.splits if_splits)

lemma cancelled_nothing_written:
  "cancelled (fst (sendMessage env m w)) \<Longrightarrow>
     db_writes (fst (sendMessage env m w)) = [] \<and> snd (sendMessage env m w) = w \<and>
     last (fst (sendMessage env m w)) = Log (RetryCancelled (ID m))"
  by (auto simp add: unit_unfold smr_proj
      split: option.splits select_result.splits if_splits)

subsection \<open>The shared context\<close>

lemma under_ctx_fields [simp]:
  "marshal (under_ctx c env) = marshal env"
  "new_request (under_ctx c env) = new_request env"
  "mark_sent_exec (under_ctx c env) = mark_sent_exec env"
  "mark_failed_exec (under_ctx c env) = mark_failed_exec env"
  "client_do (under_ctx c env) a = (if ctx_done c (2 * a) then TransportError else client_do env a)"
  "backoff_select (under_ctx c env) a = (if ctx_done c (2 * a + 1) then CtxDone else TimerFired)"
  by (simp_all add: under_ctx_def)

lemma ctx_done_None [simp]: "ctx_done None k = False"
  by (simp add: ctx_done_def)

lemma ctx_done_Some [simp]: "ctx_done (Some j) k = (j \<le> k)"
  by (simp add: ctx_done_def)

lemma attempt_ok_under_ctx:
  "attempt_ok (under_ctx c env) a \<longleftrightarrow> attempt_ok env a \<and> \<not> ctx_done c (2 * a)"
  by (simp add: attempt_ok_def accepted_parsed_def)

text \<open>A context cancelled during the HTTP call of the third attempt: the call returns an
  error, the attempt is the last one, and the loop goes on to mark the message failed.\<close>

lemma cancelled_third_call_marks_failed:
  "db_writes (fst (sendMessage (under_ctx (Some 4) env_rejecting) msg1 world1)) = [(''failed'', 1)] \<and>
   map snd (http_calls (fst (sendMessage (under_ctx (Some 4) env_rejecting) msg1 world1)))
     = [Response 500 DecodeError, Response 500 DecodeError, TransportError] \<and>
   \<not> cancelled (fst (sendMessage (under_ctx (Some 4) env_rejecting) msg1 world1))"
  by (simp add: concrete_unfold under_ctx_def ctx_done_def)

subsection \<open>The polling loop and the lifecycle\<close>

lemma scan_rows_RowsOk: "scan_rows RowsOk k rs msgs = Inr (msgs @ map scan_row rs)"
  by (induction rs arbitrary: k msgs) simp_all

lemma process_fetch_error:
  "FetchUnsent (fetch_query pe) 2 (db w) = Inl e \<Longrightarrow> process pe w = ([Log FetchError], w)"
  by (simp add: process_def)

lemma process_fetched:
  "FetchUnsent (fetch_query pe) 2 (db w) = Inr msgs \<Longrightarrow>
     process pe w =
       (Log (Fetched (length msgs)) # fst (run_units (unit_envs pe) msgs w),
        snd (run_units (unit_envs pe) msgs w))"
  by (simp add: process_def split_beta)

lemma ticker_loop_returned:
  "fst (ticker_loop cs w) = Returned \<longleftrightarrow> CtxDoneC \<in> set cs"
proof (induction cs arbitrary: w)
  case Nil
  show ?case by simp
next
  case (Cons c cs)
  show ?case
  proof (cases c)
    case (TickerC pe)
    then show ?thesis using Cons.IH by (simp add: split_beta Let_def)
  next
    case CtxDoneC
    then show ?thesis by simp
  qed
qed

lemma run_returned:
  "fst (run iv pe cs w) = Returned \<longleftrightarrow> 0 < sint iv \<and> CtxDoneC \<in> set cs"
  by (auto simp add: run_def split_beta Let_def ticker_loop_returned)

text \<open>A pass whose fetch returns an error is skipped, and the loop handles what follows
  from the same state.\<close>

lemma fetch_error_skips_pass:
  assumes "FetchUnsent (fetch_query pe) 2 (db w) = Inl e"
  shows "ticker_loop (TickerC pe # cs) w =
           (fst (ticker_loop cs w), Log FetchError # fst (snd (ticker_loop cs w)),
            snd (snd (ticker_loop cs w)))"
  using process_fetch_error[OF assms] by (simp add: split_beta Let_def)

lemma Stop_returns:
  "has_context s \<Longrightarrow> \<exists>s1. Stop s = Return (None, s1) \<and> has_context s1"
  by (cases "isRunning s"; cases "ctx s") (auto simp: Stop_def has_context_def)

lemma calls_return_nil:
  "has_context s \<Longrightarrow> \<exists>s'. calls cs s = Return (replicate (length cs) None, s')"
proof (induction cs arbitrary: s)
  case Nil
  show ?case by simp
next
  case (Cons c cs)
  show ?case
  proof (cases c)
    case StartCall
    have "has_context (snd (Start s))"
      using Cons.prems by (simp add: Start_def has_context_def)
    from Cons.IH[OF this] obtain s' where
      "calls cs (snd (Start s)) = Return (replicate (length cs) None, s')" by blast
    then show ?thesis using StartCall by (simp add: Start_def split: if_splits)
  next
    case StopCall
    obtain s1 where s1: "Stop s = Return (None, s1)" "has_context s1"
      using Stop_returns[OF Cons.prems] by blast
    from Cons.IH[OF s1(2)] obtain s' where
      "calls cs s1 = Return (replicate (length cs) None, s')" by blast
    then show ?thesis using StopCall s1(1) by simp
  qed
qed


section \<open>The claims\<close>

subsection \<open>Backoff delays\<close>

text \<open>
  C1 (as amended). The delay started after failed attempt \<open>i\<close>, before attempt \<open>i + 1\<close>,
  is the base delay of one second times \<open>2 ^ i\<close>, and a unit starts at most two delays,
  since no delay follows the last attempt. So a message whose three attempts all fail,
  with no cancellation, waits exactly one second and two seconds, three seconds in all,
  and is then marked failed.
\<close>

theorem backoff_delays:
  "(\<forall>i < length (delays (fst (sendMessage env m w))).
      delays (fst (sendMessage env m w)) ! i = baseDelay * 2 ^ i \<and>
      sint (delays (fst (sendMessage env m w)) ! i) = 1000000000 * 2 ^ i)
   \<and> length (delays (fst (sendMessage env m w))) \<le> 2
   \<and> (length (Content m) \<le> 160 \<and> marshal env (PhoneNumber m) (Content m) \<noteq> None \<and>
      \<not> attempt_ok env 0 \<and> \<not> attempt_ok env 1 \<and> \<not> attempt_ok env 2 \<and>
      backoff_select env 0 = TimerFired \<and> backoff_select env 1 = TimerFired \<longrightarrow>
        map sint (delays (fst (sendMessage env m w))) = [1000000000, 2000000000] \<and>
        sum_list (map sint (delays (fst (sendMessage env m w)))) = 3000000000 \<and>
        failed_attempts (fst (sendMessage env m w)) = 3 \<and>
        db_writes (fst (sendMessage env m w)) = [(MessageStatusFailed, ID m)])"
proof -
  let ?ds = "delays (fst (sendMessage env m w))"
  have pre: "?ds = take (length ?ds) [1000000000, 2000000000]"
    by (rule unit_delays_prefix)
  have len: "length ?ds \<le> 2"
  proof -
    have "length ?ds = length (take (length ?ds) [1000000000, 2000000000 :: 64 word])"
      using pre by simp
    then show ?thesis by simp
  qed
  have nth: "?ds ! i = baseDelay * 2 ^ i \<and> sint (?ds ! i) = 1000000000 * 2 ^ i"
    if "i < length ?ds" for i
  proof -
    have i2: "i = 0 \<or> i = 1" using that len by linarith
    have "?ds ! i = [1000000000, 2000000000 :: 64 word] ! i"
      using pre that by (metis nth_take)
    then show ?thesis using i2 by (auto simp: baseDelay_def)
  qed
  have all3: "map sint ?ds = [1000000000, 2000000000] \<and>
        sum_list (map sint ?ds) = 3000000000 \<and>
        failed_attempts (fst (sendMessage env m w)) = 3 \<and>
        db_writes (fst (sendMessage env m w)) = [(MessageStatusFailed, ID m)]"
    if "length (Content m) \<le> 160" "marshal env (PhoneNumber m) (Content m) \<noteq> None"
       "\<not> attempt_ok env 0" "\<not> attempt_ok env 1" "\<not> attempt_ok env 2"
       "backoff_select env 0 = TimerFired" "backoff_select env 1 = TimerFired"
    using that
    by (auto simp add: unit_unfold smr_proj maxMessageLength_def is_attempt_failure_def)
  show ?thesis using len nth all3 by blast
qed

theorem backoff_delays_witness:
  "length (Content msg1) \<le> 160 \<and>
   map sint (delays (fst (sendMessage env_rejecting msg1 world1))) = [1000000000, 2000000000] \<and>
   sum_list (map sint (delays (fst (sendMessage env_rejecting msg1 world1)))) = 3000000000 \<and>
   db_writes (fst (sendMessage env_rejecting msg1 world1)) = [(MessageStatusFailed, 1)]"
  using backoff_delays[of env_rejecting msg1 world1]
  by (simp add: env_defs attempt_ok_def accepted_parsed_def)

text \<open>The claim as stated fails: with the endpoint rejecting all three attempts, the
  delays waited are one and two seconds, not one, two and four, and they add up to three
  seconds, not seven.\<close>

theorem backoff_delays_counterexample:
  "map sint (delays (fst (sendMessage env_rejecting msg1 world1))) = [1000000000, 2000000000] \<and>
   map sint (delays (fst (sendMessage env_rejecting msg1 world1)))
     \<noteq> [1000000000, 2000000000, 4000000000] \<and>
   sum_list (map sint (delays (fst (sendMessage env_rejecting msg1 world1)))) \<noteq> 7000000000 \<and>
   map rejected (map snd (http_calls (fst (sendMessage env_rejecting msg1 world1))))
     = [True, True, True] \<and>
   db_writes (fst (sendMessage env_rejecting msg1 world1)) = [(''failed'', 1)]"
  by (simp add: concrete_unfold)

subsection \<open>Reaching the status sent\<close>

text \<open>
  C2 (as amended). The unit issues the write that marks the message sent if and only if
  one of the HTTP calls of its run returns an accepted status code (200, 201 or 202) with
  a body that decodes; and a message that is pending in the table has the status sent
  after the run if and only if, in addition, that write succeeds. An accepted response
  whose body does not decode marks nothing and counts as a failed attempt.
\<close>

theorem sent_iff_accepted_parsed:
  "((MessageStatusSent, ID m) \<in> set (db_writes (fst (sendMessage env m w))) \<longleftrightarrow>
      (\<exists>(a, r) \<in> set (http_calls (fst (sendMessage env m w))). accepted_parsed r))
   \<and> (status_of (db w) (ID m) = Some MessageStatusPending \<longrightarrow>
        (status_of (db (snd (sendMessage env m w))) (ID m) = Some MessageStatusSent \<longleftrightarrow>
           (\<exists>(a, r) \<in> set (http_calls (fst (sendMessage env m w))). accepted_parsed r) \<and>
           mark_sent_exec env = ExecOk))
   \<and> (new_request env k \<and> client_do env k = Response c DecodeError \<longrightarrow>
        fst (sendMessageWithRetry env m body k w) = False \<and>
        snd (snd (sendMessageWithRetry env m body k w)) = w \<and>
        db_writes (fst (snd (sendMessageWithRetry env m body k w))) = [] \<and>
        failed_attempts (fst (snd (sendMessageWithRetry env m body k w))) = 1)"
proof -
  have issued: "(MessageStatusSent, ID m) \<in> set (db_writes (fst (sendMessage env m w))) \<longleftrightarrow>
      (\<exists>(a, r) \<in> set (http_calls (fst (sendMessage env m w))). accepted_parsed r)"
    by (auto simp add: unit_unfold smr_proj attempt_ok_def
        MessageStatusSent_def MessageStatusFailed_def
        split: option.splits select_result.splits if_splits)
  have stored: "status_of (db (snd (sendMessage env m w))) (ID m) = Some MessageStatusSent \<longleftrightarrow>
           (\<exists>(a, r) \<in> set (http_calls (fst (sendMessage env m w))). accepted_parsed r) \<and>
           mark_sent_exec env = ExecOk"
    if "status_of (db w) (ID m) = Some MessageStatusPending"
    using that
    by (auto simp add: unit_unfold smr_proj attempt_ok_def status_of_update_status
        MessageStatusSent_def MessageStatusFailed_def MessageStatusPending_def
        split: option.splits select_result.splits if_splits)
  have unparsed: "fst (sendMessageWithRetry env m body k w) = False \<and>
        snd (snd (sendMessageWithRetry env m body k w)) = w \<and>
        db_writes (fst (snd (sendMessageWithRetry env m body k w))) = [] \<and>
        failed_attempts (fst (snd (sendMessageWithRetry env m body k w))) = 1"
    if "new_request env k" "client_do env k = Response c DecodeError"
    using that by (simp add: smr_fst smr_proj attempt_ok_def accepted_parsed_def)
  show ?thesis using issued stored unparsed by blast
qed

theorem sent_iff_accepted_parsed_witness:
  "status_of (db world1) (ID msg1) = Some MessageStatusPending \<and>
   status_of (db (snd (sendMessage env_ok msg1 world1))) (ID msg1) = Some MessageStatusSent \<and>
   (MessageStatusSent, ID msg1) \<in> set (db_writes (fst (sendMessage env_ok msg1 world1))) \<and>
   new_request env_unparseable 0 \<and>
   fst (sendMessageWithRetry env_unparseable msg1 [] 0 world1) = False"
proof -
  have p: "status_of (db world1) (ID msg1) = Some MessageStatusPending"
    by (simp add: concrete_unfold)
  have h: "\<exists>(a, r) \<in> set (http_calls (fst (sendMessage env_ok msg1 world1))). accepted_parsed r"
    by (simp add: concrete_unfold)
  have u: "new_request env_unparseable 0 \<and>
           client_do env_unparseable 0 = Response 200 DecodeError"
    by (simp add: env_defs)
  have e: "mark_sent_exec env_ok = ExecOk" by (simp add: env_defs)
  show ?thesis
    using sent_iff_accepted_parsed[where m = msg1 and env = env_ok and w = world1]
          sent_iff_accepted_parsed[where m = msg1 and env = env_unparseable and w = world1
            and k = 0 and c = 200 and body = "[]"]
          p h u e
    by blast
qed

text \<open>The claim as stated fails: the first attempt is accepted with a body that decodes,
  the write that marks the message sent fails, and the message is still pending in the
  table.\<close>

theorem sent_iff_accepted_parsed_counterexample:
  "http_calls (fst (sendMessage env_store_down msg1 world1)) = [(0, Response 200 (Decoded ''abc''))] \<and>
   accepted_parsed (Response 200 (Decoded ''abc'')) \<and>
   status_of (db world1) 1 = Some ''pending'' \<and>
   status_of (db (snd (sendMessage env_store_down msg1 world1))) 1 = Some ''pending'' \<and>
   status_of (db (snd (sendMessage env_store_down msg1 world1))) 1 \<noteq> Some MessageStatusSent"
  by (simp add: concrete_unfold)

subsection \<open>Reaching the status failed\<close>





subsection \<open>Messages that are too long\<close>

text \<open>
  C4. For a message whose content is longer than 160, the unit only logs that it skips
  the message: it makes no delivery attempt and no status write, and the table and the
  cache are as before, so the message keeps the status it had (pending).
\<close>

theorem too_long_skipped:
  assumes "length (Content m) > 160"
  shows "sendMessage env m w = ([Log (ContentTooLong (ID m) (length (Content m)))], w)
       \<and> http_calls (fst (sendMessage env m w)) = []
       \<and> failed_attempts (fst (sendMessage env m w)) = 0
       \<and> db_writes (fst (sendMessage env m w)) = []
       \<and> status_of (db (snd (sendMessage env m w))) (ID m) = status_of (db w) (ID m)"
  using assms by (simp add: sendMessage_def maxMessageLength_def is_attempt_failure_def)

theorem too_long_skipped_witness:
  "length (Content msg_long) > 160 \<and>
   sendMessage env_ok msg_long world1 = ([Log (ContentTooLong 1 161)], world1) \<and>
   status_of (db (snd (sendMessage env_ok msg_long world1))) 1 = Some MessageStatusPending"
proof -
  have l: "length (Content msg_long) > 160" by (simp add: msg_long_def)
  have p: "status_of (db world1) 1 = Some MessageStatusPending"
    by (simp add: world1_def status_of_def MessageStatusPending_def)
  show ?thesis
    using too_long_skipped[OF l, of env_ok world1] l p by (simp add: msg_long_def)
qed

subsection \<open>Cancellation during a backoff wait\<close>

text \<open>
  C5. If the shared context is cancelled while the unit waits out a backoff delay (the
  wait after the first attempt or the wait after the second, the attempts before it
  having failed), the \<^verbatim>\<open>select\<close> takes the \<^verbatim>\<open>ctx.Done()\<close> branch and the unit returns
  without issuing the write that marks the message sent or the one that marks it failed;
  the table and the cache are as before, so the message keeps the status pending. The
  line the unit logs on cancellation is logged in exactly these runs.
\<close>

theorem cancelled_backoff_writes_nothing:
  "(length (Content m) \<le> 160 \<and> marshal env (PhoneNumber m) (Content m) \<noteq> None \<and>
    \<not> attempt_ok env 0 \<and>
    (backoff_select env 0 = CtxDone \<or>
     backoff_select env 0 = TimerFired \<and> \<not> attempt_ok env 1 \<and> backoff_select env 1 = CtxDone) \<longrightarrow>
      db_writes (fst (sendMessage env m w)) = [] \<and>
      snd (sendMessage env m w) = w \<and>
      status_of (db (snd (sendMessage env m w))) (ID m) = status_of (db w) (ID m) \<and>
      last (fst (sendMessage env m w)) = Log (RetryCancelled (ID m)))
   \<and> (cancelled (fst (sendMessage env m w)) \<longleftrightarrow>
        length (Content m) \<le> 160 \<and> marshal env (PhoneNumber m) (Content m) \<noteq> None \<and>
        \<not> attempt_ok env 0 \<and>
        (backoff_select env 0 = CtxDone \<or>
         backoff_select env 0 = TimerFired \<and> \<not> attempt_ok env 1 \<and>
         backoff_select env 1 = CtxDone))
   \<and> (length (Content m) \<le> 160 \<and> marshal env (PhoneNumber m) (Content m) \<noteq> None \<and>
      \<not> attempt_ok env 0 \<and> (c = Some 1 \<or> c = Some 3 \<and> \<not> attempt_ok env 1) \<longrightarrow>
        db_writes (fst (sendMessage (under_ctx c env) m w)) = [] \<and>
        snd (sendMessage (under_ctx c env) m w) = w \<and>
        last (fst (sendMessage (under_ctx c env) m w)) = Log (RetryCancelled (ID m)))"
proof -
  have gen: "db_writes (fst (sendMessage e m w)) = [] \<and> snd (sendMessage e m w) = w \<and>
      status_of (db (snd (sendMessage e m w))) (ID m) = status_of (db w) (ID m) \<and>
      last (fst (sendMessage e m w)) = Log (RetryCancelled (ID m))"
    if "length (Content m) \<le> 160" "marshal e (PhoneNumber m) (Content m) \<noteq> None"
       "\<not> attempt_ok e 0"
       "backoff_select e 0 = CtxDone \<or>
        backoff_select e 0 = TimerFired \<and> \<not> attempt_ok e 1 \<and> backoff_select e 1 = CtxDone"
    for e
  proof -
    have "cancelled (fst (sendMessage e m w))"
      using that cancelled_by_env[of e m w] by blast
    from cancelled_nothing_written[OF this] show ?thesis by simp
  qed
  have ctx: "db_writes (fst (sendMessage (under_ctx c env) m w)) = [] \<and>
        snd (sendMessage (under_ctx c env) m w) = w \<and>
        last (fst (sendMessage (under_ctx c env) m w)) = Log (RetryCancelled (ID m))"
    if "length (Content m) \<le> 160" "marshal env (PhoneNumber m) (Content m) \<noteq> None"
       "\<not> attempt_ok env 0" "c = Some 1 \<or> c = Some 3 \<and> \<not> attempt_ok env 1"
  proof -
    have "db_writes (fst (sendMessage (under_ctx c env) m w)) = [] \<and>
      snd (sendMessage (under_ctx c env) m w) = w \<and>
      status_of (db (snd (sendMessage (under_ctx c env) m w))) (ID m) = status_of (db w) (ID m) \<and>
      last (fst (sendMessage (under_ctx c env) m w)) = Log (RetryCancelled (ID m))"
      using that by (intro gen) (auto simp add: attempt_ok_under_ctx)
    then show ?thesis by blast
  qed
  show ?thesis using gen[of env] cancelled_by_env[of env m w] ctx by blast
qed

theorem cancelled_backoff_writes_nothing_witness:
  "length (Content msg1) \<le> 160 \<and>
   \<not> attempt_ok env_cancel 0 \<and> backoff_select env_cancel 0 = CtxDone \<and>
   db_writes (fst (sendMessage env_cancel msg1 world1)) = [] \<and>
   snd (sendMessage env_cancel msg1 world1) = world1 \<and>
   status_of (db (snd (sendMessage env_cancel msg1 world1))) (ID msg1)
     = Some MessageStatusPending \<and>
   \<not> attempt_ok env_rejecting 0 \<and> \<not> attempt_ok env_rejecting 1 \<and>
   db_writes (fst (sendMessage (under_ctx (Some 3) env_rejecting) msg1 world1)) = [] \<and>
   snd (sendMessage (under_ctx (Some 3) env_rejecting) msg1 world1) = world1 \<and>
   delays (fst (sendMessage (under_ctx (Some 3) env_rejecting) msg1 world1))
     = [1000000000, 2000000000]"
proof -
  have l: "length (Content msg1) \<le> 160" by (simp add: msg1_def)
  have j: "marshal env_cancel (PhoneNumber msg1) (Content msg1) \<noteq> None"
          "marshal env_rejecting (PhoneNumber msg1) (Content msg1) \<noteq> None"
    by (simp_all add: env_defs)
  have a: "\<not> attempt_ok env_cancel 0 \<and> backoff_select env_cancel 0 = CtxDone"
    by (simp add: env_defs attempt_ok_def accepted_parsed_def)
  have b: "\<not> attempt_ok env_rejecting 0 \<and> \<not> attempt_ok env_rejecting 1"
    by (simp add: env_defs attempt_ok_def accepted_parsed_def)
  have p: "status_of (db world1) (ID msg1) = Some MessageStatusPending"
    by (simp add: concrete_unfold)
  have d: "delays (fst (sendMessage (under_ctx (Some 3) env_rejecting) msg1 world1))
             = [1000000000, 2000000000]"
    by (simp add: concrete_unfold under_ctx_def ctx_done_def)
  have first: "db_writes (fst (sendMessage env_cancel msg1 world1)) = [] \<and>
      snd (sendMessage env_cancel msg1 world1) = world1 \<and>
      status_of (db (snd (sendMessage env_cancel msg1 world1))) (ID msg1)
        = status_of (db world1) (ID msg1)"
    using cancelled_backoff_writes_nothing[of msg1 env_cancel world1] l j(1) a by blast
  have second: "db_writes (fst (sendMessage (under_ctx (Some 3) env_rejecting) msg1 world1)) = [] \<and>
      snd (sendMessage (under_ctx (Some 3) env_rejecting) msg1 world1) = world1"
    using cancelled_backoff_writes_nothing[of msg1 env_rejecting world1 "Some 3"] l j(2) b
    by blast
  show ?thesis using l a b d first second p by simp
qed

subsection \<open>A failing store write after an accepted delivery\<close>

text \<open>
  C6. When an attempt is accepted with a response that decodes and the store write that
  marks the message sent fails, the attempt still returns success: it is not counted as
  failed, the failed status is not written, and the cache write of the correlation
  identifier is still issued when the identifier is not empty. The HTTP calls, the
  status writes issued, the cache writes, the delays and the number of failed attempts of
  a whole unit do not depend on the result of that store write, and once an HTTP call is
  accepted and decoded it is the last call of the unit.
\<close>

theorem store_failure_keeps_outcome:
  "(new_request env k \<and> client_do env k = Response c (Decoded mid) \<and>
    (c = 200 \<or> c = 201 \<or> c = 202) \<and> mark_sent_exec env = ExecErr \<longrightarrow>
      fst (sendMessageWithRetry env m body k w) = True \<and>
      db (snd (snd (sendMessageWithRetry env m body k w))) = db w \<and>
      db_writes (fst (snd (sendMessageWithRetry env m body k w))) = [(MessageStatusSent, ID m)] \<and>
      failed_attempts (fst (snd (sendMessageWithRetry env m body k w))) = 0 \<and>
      cache_writes (fst (snd (sendMessageWithRetry env m body k w))) =
        (if mid \<noteq> [] then [(redisKeyPrefix @ '':'' @ mid, rfc3339 env (clock env))] else []))
   \<and> http_calls (fst (sendMessage (env\<lparr>mark_sent_exec := x\<rparr>) m w))
       = http_calls (fst (sendMessage env m w))
   \<and> db_writes (fst (sendMessage (env\<lparr>mark_sent_exec := x\<rparr>) m w))
       = db_writes (fst (sendMessage env m w))
   \<and> cache_writes (fst (sendMessage (env\<lparr>mark_sent_exec := x\<rparr>) m w))
       = cache_writes (fst (sendMessage env m w))
   \<and> delays (fst (sendMessage (env\<lparr>mark_sent_exec := x\<rparr>) m w))
       = delays (fst (sendMessage env m w))
   \<and> failed_attempts (fst (sendMessage (env\<lparr>mark_sent_exec := x\<rparr>) m w))
       = failed_attempts (fst (sendMessage env m w))
   \<and> ((\<exists>(a, r) \<in> set (http_calls (fst (sendMessage env m w))). accepted_parsed r) \<longrightarrow>
        accepted_parsed (snd (last (http_calls (fst (sendMessage env m w))))) \<and>
        db_writes (fst (sendMessage env m w)) = [(MessageStatusSent, ID m)])"
proof -
  let ?env' = "env\<lparr>mark_sent_exec := x\<rparr>"
  have one: "fst (sendMessageWithRetry env m body k w) = True \<and>
      db (snd (snd (sendMessageWithRetry env m body k w))) = db w \<and>
      db_writes (fst (snd (sendMessageWithRetry env m body k w))) = [(MessageStatusSent, ID m)] \<and>
      failed_attempts (fst (snd (sendMessageWithRetry env m body k w))) = 0 \<and>
      cache_writes (fst (snd (sendMessageWithRetry env m body k w))) =
        (if mid \<noteq> [] then [(redisKeyPrefix @ '':'' @ mid, rfc3339 env (clock env))] else [])"
    if "new_request env k" "client_do env k = Response c (Decoded mid)"
       "c = 200 \<or> c = 201 \<or> c = 202" "mark_sent_exec env = ExecErr"
    using that
    by (simp add: smr_fst smr_db_writes smr_failed_attempts smr_cache_writes smr_db
        attempt_ok_def accepted_parsed_def cache_entry_def)
  have ok: "attempt_ok ?env' a = attempt_ok env a" for a
    by (simp add: attempt_ok_def)
  have ce: "cache_entry ?env' a = cache_entry env a" for a
    by (simp add: cache_entry_def split: do_result.splits decode_result.splits)
  have h: "http_calls (fst (sendMessage ?env' m w)) = http_calls (fst (sendMessage env m w))"
    by (simp add: unit_unfold smr_proj ok split: option.splits select_result.splits)
  have d: "db_writes (fst (sendMessage ?env' m w)) = db_writes (fst (sendMessage env m w))"
    by (simp add: unit_unfold smr_proj ok split: option.splits select_result.splits)
  have c: "cache_writes (fst (sendMessage ?env' m w)) = cache_writes (fst (sendMessage env m w))"
    by (simp add: unit_unfold smr_proj ok ce split: option.splits select_result.splits)
  have t: "delays (fst (sendMessage ?env' m w)) = delays (fst (sendMessage env m w))"
    by (simp add: unit_unfold smr_proj ok split: option.splits select_result.splits)
  have f: "failed_attempts (fst (sendMessage ?env' m w))
             = failed_attempts (fst (sendMessage env m w))"
    by (simp add: unit_unfold smr_proj ok split: option.splits select_result.splits)
  have last: "accepted_parsed (snd (last (http_calls (fst (sendMessage env m w))))) \<and>
        db_writes (fst (sendMessage env m w)) = [(MessageStatusSent, ID m)]"
    if "\<exists>(a, r) \<in> set (http_calls (fst (sendMessage env m w))). accepted_parsed r"
    using that
    by (auto simp add: unit_unfold smr_proj attempt_ok_def
        split: option.splits select_result.splits if_splits)
  show ?thesis using one h d c t f last by blast
qed

theorem store_failure_keeps_outcome_witness:
  "mark_sent_exec env_store_down = ExecErr \<and>
   fst (sendMessageWithRetry env_store_down msg1 ''b'' 0 world1) = True \<and>
   db (snd (snd (sendMessageWithRetry env_store_down msg1 ''b'' 0 world1))) = db world1 \<and>
   cache_writes (fst (snd (sendMessageWithRetry env_store_down msg1 ''b'' 0 world1)))
     = [(''insider:msg:sent:abc'', ''2025-01-01T00:00:00Z'')] \<and>
   db_writes (fst (sendMessage env_store_down msg1 world1)) = [(MessageStatusSent, ID msg1)]"
proof -
  have pre: "new_request env_store_down 0 \<and>
             client_do env_store_down 0 = Response 200 (Decoded ''abc'') \<and>
             mark_sent_exec env_store_down = ExecErr"
    by (simp add: env_defs)
  have h: "\<exists>(a, r) \<in> set (http_calls (fst (sendMessage env_store_down msg1 world1))).
             accepted_parsed r"
    by (simp add: concrete_unfold)
  have v: "rfc3339 env_store_down (clock env_store_down) = ''2025-01-01T00:00:00Z''"
    by (simp add: env_defs)
  show ?thesis
    using store_failure_keeps_outcome[where env = env_store_down and k = 0 and c = 200
            and mid = "''abc''" and m = msg1 and body = "''b''" and w = world1] pre h v
    by (simp add: redisKeyPrefix_def)
qed

subsection \<open>A failing fetch\<close>

text \<open>
  C7. A fetch error from the store is meant to abort the pass, starting no delivery unit,
  and to leave the loop running until the context is cancelled. The code does so for the
  errors \<^verbatim>\<open>FetchUnsent\<close> returns (\<open>process_fetch_error\<close>, \<open>fetch_error_skips_pass\<close>,
  \<open>run_returned\<close>), and misses two cases. When the iteration over the rows stops on an
  error after the first of two pending rows, \<^verbatim>\<open>FetchUnsent\<close> returns that row and no
  error, since it never reads \<^verbatim>\<open>rows.Err()\<close>: the pass logs one fetched message, starts
  its delivery unit and marks it sent, and logs no fetch error. And with a send interval
  that is not positive the loop ends after its first pass by the panic of the ticker,
  with no cancellation.
\<close>

theorem iteration_error_starts_units:
  "FetchUnsent (fetch_query pass_iteration_fails) 2 (db world2) = Inr [msg1] \<and>
   fst (process pass_iteration_fails world2) =
     [Log (Fetched 1),
      HttpDo 0 ''+84901234567:Hello from Insider!'' (Response 200 (Decoded ''abc'')),
      Log (SentSuccessfully 1 1), ExecUpdate ''sent'' 1,
      CacheSet ''insider:msg:sent:abc'' ''2025-01-01T00:00:00Z'',
      Log (Cached ''abc'' ''2025-01-01T00:00:00Z''), CloseBody] \<and>
   Log FetchError \<notin> set (fst (process pass_iteration_fails world2)) \<and>
   status_of (db (snd (process pass_iteration_fails world2))) 1 = Some ''sent'' \<and>
   status_of (db (snd (process pass_iteration_fails world2))) 2 = Some ''pending'' \<and>
   fst (run 0 pass_ok [TickerC pass_ok] world1) = Panicked \<and>
   CtxDoneC \<notin> set [TickerC pass_ok]"
proof -
  have f: "FetchUnsent (fetch_query pass_iteration_fails) 2 (db world2) = Inr [msg1]"
    by (simp add: pass_iteration_fails_def FetchUnsent_def world2_def msg1_def scan_row_def
        MessageStatusPending_def)
  have u: "fst (sendMessage env_ok msg1 world2) =
     [HttpDo 0 ''+84901234567:Hello from Insider!'' (Response 200 (Decoded ''abc'')),
      Log (SentSuccessfully 1 1), ExecUpdate ''sent'' 1,
      CacheSet ''insider:msg:sent:abc'' ''2025-01-01T00:00:00Z'',
      Log (Cached ''abc'' ''2025-01-01T00:00:00Z''), CloseBody]"
    by (simp add: concrete_unfold)
  have s: "status_of (db (snd (sendMessage env_ok msg1 world2))) 1 = Some ''sent'' \<and>
           status_of (db (snd (sendMessage env_ok msg1 world2))) 2 = Some ''pending''"
    by (simp add: concrete_unfold)
  have e: "unit_envs pass_iteration_fails msg1 = env_ok"
    by (simp add: pass_iteration_fails_def)
  have p: "process pass_iteration_fails world2 =
     (Log (Fetched 1) # fst (sendMessage env_ok msg1 world2),
      snd (sendMessage env_ok msg1 world2))"
    using process_fetched[OF f] e by (simp add: split_beta)
  have r: "fst (run 0 pass_ok [TickerC pass_ok] world1) = Panicked"
    by (simp add: run_def split_beta)
  show ?thesis using f p u s r by simp
qed

subsection \<open>Accepted status codes\<close>

text \<open>
  C8. An attempt that gets a response takes the accepted branch exactly when the status
  code is 200, 201 or 202. With any other status code it logs the rejection, drains the
  body and returns \<open>false\<close>, with the table and the cache as before; the result of an
  attempt is a Boolean, no error is raised.
\<close>

theorem accepted_status_codes:
  assumes "new_request env k" and "client_do env k = Response c d"
  shows "(Log (SentSuccessfully (ID m) (k + 1))
            \<in> set (fst (snd (sendMessageWithRetry env m body k w)))
          \<longleftrightarrow> c = 200 \<or> c = 201 \<or> c = 202)
       \<and> (rejected (client_do env k) \<longleftrightarrow> \<not> (c = 200 \<or> c = 201 \<or> c = 202))
       \<and> (\<not> (c = 200 \<or> c = 201 \<or> c = 202) \<longrightarrow>
            sendMessageWithRetry env m body k w =
              (False, [HttpDo k body (Response c d), Log (SendRejected (ID m) (k + 1) c), Drain,
                       CloseBody],
               w))"
  using assms
  by (auto simp add: sendMessageWithRetry_def Let_def split_beta rejected_def
      split: decode_result.splits)

theorem accepted_status_codes_witness:
  "new_request env_rejecting 0 \<and> client_do env_rejecting 0 = Response 500 DecodeError \<and>
   rejected (client_do env_rejecting 0) \<and>
   sendMessageWithRetry env_rejecting msg1 ''b'' 0 world1 =
     (False, [HttpDo 0 ''b'' (Response 500 DecodeError), Log (SendRejected 1 1 500), Drain,
              CloseBody],
      world1)"
proof -
  have n: "new_request env_rejecting 0" by (simp add: env_defs)
  have r: "client_do env_rejecting 0 = Response 500 DecodeError" by (simp add: env_defs)
  show ?thesis
    using accepted_status_codes[OF n r, of msg1 "''b''" world1] n r by (simp add: msg1_def)
qed

subsection \<open>Redundant \<^verbatim>\<open>Start\<close> and \<^verbatim>\<open>Stop\<close>\<close>

text \<open>
  C9. \<^verbatim>\<open>Start\<close> on a running scheduler returns no error and leaves the scheduler as it
  is (no new context, no second loop launched); \<^verbatim>\<open>Stop\<close> on a stopped scheduler returns
  no error and leaves it as it is. \<^verbatim>\<open>Start\<close> never returns an error, \<^verbatim>\<open>Stop\<close> returns none
  whenever it returns, and in every sequence of calls on a new scheduler every call
  returns, with no error.
\<close>

theorem redundant_start_stop:
  "(isRunning s \<longrightarrow> Start s = (None, s))
   \<and> (\<not> isRunning s \<longrightarrow> Stop s = Return (None, s))
   \<and> fst (Start s) = None
   \<and> (\<forall>e s'. Stop s = Return (e, s') \<longrightarrow> e = None)
   \<and> (\<exists>s'. calls cs NewScheduler = Return (replicate (length cs) None, s'))"
proof -
  have n: "has_context NewScheduler" by (simp add: has_context_def NewScheduler_def)
  have a: "\<forall>e s'. Stop s = Return (e, s') \<longrightarrow> e = None"
    by (auto simp add: Stop_def split: if_splits option.splits)
  show ?thesis using calls_return_nil[OF n, of cs] a by (simp add: Start_def Stop_def)
qed

theorem redundant_start_stop_witness:
  "isRunning (snd (Start NewScheduler)) \<and>
   Start (snd (Start NewScheduler)) = (None, snd (Start NewScheduler)) \<and>
   launched (snd (Start (snd (Start NewScheduler)))) = [0] \<and>
   \<not> isRunning NewScheduler \<and>
   Stop NewScheduler = Return (None, NewScheduler)"
proof -
  have r: "isRunning (snd (Start NewScheduler))" by (simp add: Start_def NewScheduler_def)
  have l: "launched (snd (Start NewScheduler)) = [0]" by (simp add: Start_def NewScheduler_def)
  have s: "\<not> isRunning NewScheduler" by (simp add: NewScheduler_def)
  show ?thesis
    using redundant_start_stop[of "snd (Start NewScheduler)" "[]"]
          redundant_start_stop[of NewScheduler "[]"] r l s
    by simp
qed

subsection \<open>A payload that cannot be serialised\<close>

text \<open>
  C10. If serialising the payload of a message fails, the unit makes no delivery attempt
  and no status write, and the table and the cache are as before: the message keeps the
  status pending.
\<close>

theorem marshal_error_abandons:
  assumes "marshal env (PhoneNumber m) (Content m) = None"
  shows "http_calls (fst (sendMessage env m w)) = []
       \<and> failed_attempts (fst (sendMessage env m w)) = 0
       \<and> db_writes (fst (sendMessage env m w)) = []
       \<and> snd (sendMessage env m w) = w
       \<and> status_of (db (snd (sendMessage env m w))) (ID m) = status_of (db w) (ID m)
       \<and> (length (Content m) \<le> 160 \<longrightarrow>
            fst (sendMessage env m w) = [Log (MarshalFailed (ID m))])"
  using assms by (simp add: sendMessage_def maxMessageLength_def is_attempt_failure_def)

theorem marshal_error_abandons_witness:
  "marshal env_marshal_fails (PhoneNumber msg1) (Content msg1) = None \<and>
   length (Content msg1) \<le> 160 \<and>
   sendMessage env_marshal_fails msg1 world1 = ([Log (MarshalFailed 1)], world1) \<and>
   status_of (db (snd (sendMessage env_marshal_fails msg1 world1))) 1
     = Some MessageStatusPending"
proof -
  have h: "marshal env_marshal_fails (PhoneNumber msg1) (Content msg1) = None"
    by (simp add: env_defs)
  have l: "length (Content msg1) \<le> 160" by (simp add: msg1_def)
  have p: "status_of (db world1) 1 = Some MessageStatusPending"
    by (simp add: world1_def status_of_def MessageStatusPending_def)
  have i: "ID msg1 = 1" by (simp add: msg1_def)
  show ?thesis
    using marshal_error_abandons[OF h, of world1] h l p i
    by (cases "sendMessage env_marshal_fails msg1 world1") simp
qed


end
